theory Spec2Isabelle
  imports Main
begin

section \<open>Data model of \<open>signature.c\<close>\<close>

text \<open>
  The GMP integers (\<open>mpz_t\<close>) are unbounded, so they are \<^typ>\<open>int\<close>.  The structs are
  records; the field names carry the struct's name as a prefix (\<open>sig->r\<close> is \<open>sig_r\<close>,
  \<open>Q->x\<close> is \<open>point_x\<close>, \<open>curve->n\<close> is \<open>curve_n\<close>), since a field called \<open>r\<close> or \<open>x\<close>
  would capture the variables of every statement below.
\<close>

record signature_s =
  sig_r :: int
  sig_s :: int

text \<open>
  \<open>point.h\<close> and \<open>domain_parameters.h\<close> are not among the sources.  \<open>signature.c\<close> reads
  \<open>x\<close> and \<open>infinity\<close> of a point and \<open>G\<close> and \<open>n\<close> of the domain; the field prime and the
  two coefficients are what the specification calls "field and curve coefficients".
\<close>

record point =
  point_x :: int
  point_y :: int
  point_infinity :: bool

record domain_parameters =
  curve_p :: int
  curve_a :: int
  curve_b :: int
  curve_G :: point
  curve_n :: int

text \<open>
  The three functions of the repository that \<open>signature.c\<close> calls and that are not among
  the sources (\<open>point.c\<close>, \<open>numbertheory.c\<close>) are parameters of the model: every
  general theorem below holds for whatever total functions stand here.  The result argument
  of the C functions is the returned value.
\<close>

record collaborators =
  point_multiplication :: "int \<Rightarrow> point \<Rightarrow> domain_parameters \<Rightarrow> point"
  point_addition :: "point \<Rightarrow> point \<Rightarrow> domain_parameters \<Rightarrow> point"
  number_theory_inverse :: "int \<Rightarrow> int \<Rightarrow> int"

text \<open>
  The fatal stops: the assertion of line 77, GMP's division by zero, and the use of a point
  after \<open>point_clear\<close> has released it (undefined behaviour in C, a fatal stop here).
\<close>

datatype error = Assertion_failed | Division_by_zero | Released_point_used

section \<open>The GMP functions used\<close>

text \<open>\<open>mpz_cmp\<close> returns a negative, zero or positive value; \<open>mpz_sgn\<close> the sign.\<close>

definition mpz_cmp :: "int \<Rightarrow> int \<Rightarrow> int" where
  "mpz_cmp a b = sgn (a - b)"

definition mpz_sgn :: "int \<Rightarrow> int" where
  "mpz_sgn a = sgn a"

text \<open>
  \<open>mpz_mod\<close> ignores the sign of the divisor, its result is never negative, and a zero
  divisor is GMP's division by zero, which ends the process.
\<close>

definition mpz_mod :: "int \<Rightarrow> int \<Rightarrow> error + int" where
  "mpz_mod a d = (if d = 0 then Inl Division_by_zero else Inr (a mod \<bar>d\<bar>))"

text \<open>
  \<open>mpz_sizeinbase(a, 2)\<close>: the number of bits of the absolute value, and 1 for zero.
\<close>

fun bit_count :: "nat \<Rightarrow> nat" where
  "bit_count m = (if m = 0 then 0 else Suc (bit_count (m div 2)))"

declare bit_count.simps [simp del]

definition mpz_sizeinbase_2 :: "int \<Rightarrow> nat" where
  "mpz_sizeinbase_2 a = (if a = 0 then 1 else bit_count (nat \<bar>a\<bar>))"

text \<open>
  \<open>mpz_urandomm(k, state, bound)\<close> stores a uniform random integer in the range 0 to
  \<open>bound - 1\<close>, inclusive (the sign of the bound is ignored, a zero bound is a division by
  zero).  The generator's state after \<open>random_seeding\<close> is the natural number \<open>raw\<close>, which
  the model takes as an input: every value of the range is the result for some \<open>raw\<close>.
\<close>

definition mpz_urandomm :: "nat \<Rightarrow> int \<Rightarrow> error + int" where
  "mpz_urandomm raw bound =
     (if bound = 0 then Inl Division_by_zero else Inr (int raw mod \<bar>bound\<bar>))"

section \<open>The signature operations\<close>

text \<open>\<open>signature_init\<close>: \<open>mpz_init\<close> sets both integers to zero.\<close>

definition signature_init :: signature_s where
  "signature_init = \<lparr>sig_r = 0, sig_s = 0\<rparr>"

text \<open>\<open>signature_set_ui\<close>: both components from unsigned machine integers.\<close>

definition signature_set_ui :: "signature_s \<Rightarrow> nat \<Rightarrow> nat \<Rightarrow> signature_s" where
  "signature_set_ui sig r s = sig\<lparr>sig_r := int r, sig_s := int s\<rparr>"

definition signature_copy :: "signature_s \<Rightarrow> signature_s \<Rightarrow> signature_s" where
  "signature_copy R sig = R\<lparr>sig_r := sig_r sig, sig_s := sig_s sig\<rparr>"

definition signature_cmp :: "signature_s \<Rightarrow> signature_s \<Rightarrow> bool" where
  "signature_cmp sig1 sig2 \<longleftrightarrow>
     mpz_cmp (sig_r sig1) (sig_r sig2) = 0 \<and> mpz_cmp (sig_s sig1) (sig_s sig2) = 0"

definition signature_generate_key ::
  "collaborators \<Rightarrow> int \<Rightarrow> domain_parameters \<Rightarrow> point" where
  "signature_generate_key ops private_key curve =
     point_multiplication ops private_key (curve_G curve) curve"

subsection \<open>Signing\<close>

text \<open>
  Lines 94 to 98: the bound \<open>t1 = n - 2\<close> and the draw of \<open>k\<close> below it.
\<close>

definition draw_nonce :: "nat \<Rightarrow> domain_parameters \<Rightarrow> error + int" where
  "draw_nonce raw curve = (let t1 = curve_n curve - 2 in mpz_urandomm raw t1)"

text \<open>
  Lines 113 to 118, the second component from \<open>k\<close> and \<open>r\<close>; the temporaries \<open>t2\<close> and
  \<open>t3\<close> are written twice in the source and carry a prime here the second time.
\<close>

definition compute_s ::
  "collaborators \<Rightarrow> int \<Rightarrow> int \<Rightarrow> int \<Rightarrow> int \<Rightarrow> domain_parameters \<Rightarrow> error + int" where
  "compute_s ops k r message private_key curve =
     (let t1 = number_theory_inverse ops k (curve_n curve);
          t2 = private_key * r;
          t3 = message + t2
      in case mpz_mod t3 (curve_n curve) of
           Inl e \<Rightarrow> Inl e
         | Inr t2' \<Rightarrow>
             (let t3' = t2' * t1 in mpz_mod t3' (curve_n curve)))"

text \<open>
  One pass from the label \<open>signature_sign_start\<close> with the point \<open>Q\<close> as \<open>point_init\<close>
  made it.  Each pass reseeds the generator, so it consumes one generator state.  \<open>None\<close>
  is the \<open>goto\<close> back to the label (\<open>r = 0\<close>), \<open>Some (Inl e)\<close> a fatal stop,
  \<open>Some (Inr sig)\<close> the return with \<open>r\<close> and \<open>s\<close> written to the signature.  No statement
  after the computation of \<open>s\<close> looks at its value.
\<close>

definition sign_attempt ::
  "collaborators \<Rightarrow> nat \<Rightarrow> int \<Rightarrow> int \<Rightarrow> domain_parameters
     \<Rightarrow> (error + signature_s) option" where
  "sign_attempt ops raw message private_key curve =
     (case draw_nonce raw curve of
        Inl e \<Rightarrow> Some (Inl e)
      | Inr k \<Rightarrow>
          (let Q = point_multiplication ops k (curve_G curve) curve;
               x = point_x Q
           in case mpz_mod x (curve_n curve) of
                Inl e \<Rightarrow> Some (Inl e)
              | Inr r \<Rightarrow>
                  if mpz_sgn r = 0 then None
                  else
                    (case compute_s ops k r message private_key curve of
                       Inl e \<Rightarrow> Some (Inl e)
                     | Inr s \<Rightarrow> Some (Inr \<lparr>sig_r = r, sig_s = s\<rparr>))))"

text \<open>
  \<open>Q\<close> is initialised once, on line 82, before the label; every pass releases it with
  \<open>point_clear(Q)\<close> on line 103, and nothing initialises it again.  So a pass that starts
  after the \<open>goto\<close> draws its nonce (lines 94 to 98) and then hands the released point to
  \<open>point_multiplication\<close> on line 101.  The flag \<open>released\<close> says whether \<open>Q\<close> has been
  released when the pass starts.
\<close>

definition sign_pass ::
  "collaborators \<Rightarrow> bool \<Rightarrow> nat \<Rightarrow> int \<Rightarrow> int \<Rightarrow> domain_parameters
     \<Rightarrow> (error + signature_s) option" where
  "sign_pass ops released raw message private_key curve =
     (case draw_nonce raw curve of
        Inl e \<Rightarrow> Some (Inl e)
      | Inr k \<Rightarrow>
          if released then Some (Inl Released_point_used)
          else sign_attempt ops raw message private_key curve)"

text \<open>
  The loop: the passes consume a list of generator states, one each, and every pass leaves
  \<open>Q\<close> released.  \<open>None\<close> says that the states supplied ran out before the code returned
  or stopped.
\<close>

fun sign_loop ::
  "collaborators \<Rightarrow> bool \<Rightarrow> nat list \<Rightarrow> int \<Rightarrow> int \<Rightarrow> domain_parameters
     \<Rightarrow> (error + signature_s) option" where
  "sign_loop ops released [] message private_key curve = None"
| "sign_loop ops released (raw # raws) message private_key curve =
     (case sign_pass ops released raw message private_key curve of
        None \<Rightarrow> sign_loop ops True raws message private_key curve
      | Some res \<Rightarrow> Some res)"

text \<open>
  Line 77, the assertion; line 82, the initialisation of \<open>Q\<close>; and then the loop.
\<close>

definition signature_sign ::
  "collaborators \<Rightarrow> nat list \<Rightarrow> int \<Rightarrow> int \<Rightarrow> domain_parameters
     \<Rightarrow> (error + signature_s) option" where
  "signature_sign ops raws message private_key curve =
     (if mpz_sizeinbase_2 message \<le> mpz_sizeinbase_2 (curve_n curve)
      then sign_loop ops False raws message private_key curve
      else Some (Inl Assertion_failed))"

subsection \<open>Verification\<close>

text \<open>Lines 139 to 142, the condition of the rejecting branch.\<close>

definition range_check_rejects :: "signature_s \<Rightarrow> domain_parameters \<Rightarrow> bool" where
  "range_check_rejects sig curve \<longleftrightarrow>
     mpz_cmp (sig_r sig) 1 < 0 \<and>
     mpz_cmp (curve_n curve) (sig_r sig) \<le> 0 \<and>
     mpz_cmp (sig_s sig) 1 < 0 \<and>
     mpz_cmp (curve_n curve) (sig_s sig) \<le> 0"

text \<open>Lines 150 to 192, what runs when the branch is not taken.\<close>

definition verify_equation ::
  "collaborators \<Rightarrow> int \<Rightarrow> signature_s \<Rightarrow> point \<Rightarrow> domain_parameters \<Rightarrow> error + bool" where
  "verify_equation ops message sig public_key curve =
     (let w = number_theory_inverse ops (sig_s sig) (curve_n curve)
      in case mpz_mod message (curve_n curve) of
           Inl e \<Rightarrow> Inl e
         | Inr tt2 \<Rightarrow>
             (case mpz_mod (tt2 * w) (curve_n curve) of
                Inl e \<Rightarrow> Inl e
              | Inr u1 \<Rightarrow>
                  (case mpz_mod (sig_r sig * w) (curve_n curve) of
                     Inl e \<Rightarrow> Inl e
                   | Inr u2 \<Rightarrow>
                       (let t1 = point_multiplication ops u1 (curve_G curve) curve;
                            t2 = point_multiplication ops u2 public_key curve;
                            x = point_addition ops t1 t2 curve;
                            result = (mpz_cmp (sig_r sig) (point_x x) = 0 \<and>
                                      \<not> point_infinity x)
                        in Inr result))))"

definition signature_verify ::
  "collaborators \<Rightarrow> int \<Rightarrow> signature_s \<Rightarrow> point \<Rightarrow> domain_parameters \<Rightarrow> error + bool" where
  "signature_verify ops message sig public_key curve =
     (if range_check_rejects sig curve then Inr False
      else verify_equation ops message sig public_key curve)"

text \<open>
  The acceptance condition in the specification's words (steps 2 to 6 of its section 4.3),
  to compare \<open>signature_verify\<close> with.
\<close>

definition accepts_by_spec ::
  "collaborators \<Rightarrow> int \<Rightarrow> signature_s \<Rightarrow> point \<Rightarrow> domain_parameters \<Rightarrow> bool" where
  "accepts_by_spec ops message sig public_key curve \<longleftrightarrow>
     (let n = curve_n curve;
          w = number_theory_inverse ops (sig_s sig) n;
          u1 = ((message mod n) * w) mod n;
          u2 = (sig_r sig * w) mod n;
          X = point_addition ops
                (point_multiplication ops u1 (curve_G curve) curve)
                (point_multiplication ops u2 public_key curve) curve
      in \<not> point_infinity X \<and> point_x X = sig_r sig)"

section \<open>A small curve to run the code on\<close>

text \<open>
  Modelled from the spec: \<open>number_theory_inverse\<close> of \<open>numbertheory.c\<close>, which is not among
  the sources.  The specification: "the integer \<open>w\<close> such that \<open>v * w \<equiv> 1 (mod m)\<close>",
  undefined when there is none.  The search below returns the one in \<open>[0, m - 1]\<close>; the 0
  where there is none is this model's choice, and no statement below depends on it.
\<close>

definition modular_inverse :: "int \<Rightarrow> int \<Rightarrow> int" where
  "modular_inverse v m =
     (case find (\<lambda>w. (v * w) mod m = 1) [0..m - 1] of Some w \<Rightarrow> w | None \<Rightarrow> 0)"

text \<open>
  Modelled from the spec: \<open>point_addition\<close> and \<open>point_multiplication\<close> of \<open>point.c\<close>, which
  is not among the sources.  The specification: "computing the group-law sum" and
  "computing scalar * point under the domain's group law", a scalar multiplication being
  the "repeated group operation"; a point has "an affine x-coordinate field and an
  is-infinity flag", and the initial point is the "identity/zero value".  The group law is
  the chord and tangent law of the curve \<open>y\<^sup>2 = x\<^sup>3 + a x + b\<close> over the field of \<open>p\<close>
  elements.
\<close>

definition point_at_infinity :: point where
  "point_at_infinity = \<lparr>point_x = 0, point_y = 0, point_infinity = True\<rparr>"

definition affine_addition :: "point \<Rightarrow> point \<Rightarrow> domain_parameters \<Rightarrow> point" where
  "affine_addition P Q curve =
     (let p = curve_p curve in
      if point_infinity P then Q
      else if point_infinity Q then P
      else if point_x P = point_x Q \<and> (point_y P + point_y Q) mod p = 0
        then point_at_infinity
      else
        (let l = (if point_x P = point_x Q
                  then (3 * point_x P * point_x P + curve_a curve) *
                         modular_inverse ((2 * point_y P) mod p) p
                  else (point_y Q - point_y P) *
                         modular_inverse ((point_x Q - point_x P) mod p) p) mod p;
             x3 = (l * l - point_x P - point_x Q) mod p;
             y3 = (l * (point_x P - x3) - point_y P) mod p
         in \<lparr>point_x = x3, point_y = y3, point_infinity = False\<rparr>))"

fun repeated_addition :: "nat \<Rightarrow> point \<Rightarrow> domain_parameters \<Rightarrow> point" where
  "repeated_addition 0 P curve = point_at_infinity"
| "repeated_addition (Suc k) P curve = affine_addition P (repeated_addition k P curve) curve"

definition scalar_multiplication :: "int \<Rightarrow> point \<Rightarrow> domain_parameters \<Rightarrow> point" where
  "scalar_multiplication k P curve = repeated_addition (nat k) P curve"

definition reference_ops :: collaborators where
  "reference_ops =
     \<lparr>point_multiplication = scalar_multiplication,
      point_addition = affine_addition,
      number_theory_inverse = modular_inverse\<rparr>"

text \<open>
  The curve \<open>y\<^sup>2 = x\<^sup>3 + 3\<close> over the field of 19 elements has 13 points; \<open>(1, 2)\<close> is one
  of them, so it generates the whole group, of prime order \<open>n = 13 < p\<close>.
\<close>

definition toy_curve :: domain_parameters where
  "toy_curve =
     \<lparr>curve_p = 19, curve_a = 0, curve_b = 3,
      curve_G = \<lparr>point_x = 1, point_y = 2, point_infinity = False\<rparr>,
      curve_n = 13\<rparr>"

text \<open>
  The curve \<open>y\<^sup>2 = x\<^sup>3 - x\<close> over the same field, with the base point \<open>(0, 0)\<close> of
  order 2.
\<close>

definition order_two_curve :: domain_parameters where
  "order_two_curve =
     \<lparr>curve_p = 19, curve_a = 18, curve_b = 0,
      curve_G = \<lparr>point_x = 0, point_y = 0, point_infinity = False\<rparr>,
      curve_n = 2\<rparr>"

definition on_curve :: "point \<Rightarrow> domain_parameters \<Rightarrow> bool" where
  "on_curve P curve \<longleftrightarrow>
     \<not> point_infinity P \<and> 0 \<le> point_x P \<and> point_x P < curve_p curve \<and>
     0 \<le> point_y P \<and> point_y P < curve_p curve \<and>
     (point_y P * point_y P) mod curve_p curve =
       (point_x P * point_x P * point_x P + curve_a curve * point_x P + curve_b curve)
         mod curve_p curve"

definition is_prime :: "int \<Rightarrow> bool" where
  "is_prime m \<longleftrightarrow> 1 < m \<and> list_all (\<lambda>d. m mod d \<noteq> 0) [2..m - 1]"

text \<open>
  The domain is a prime field, a curve without singular points and a base point on it
  whose order is the prime \<open>n\<close>:
  \<open>n * G\<close> is the point at infinity, and no smaller positive multiple is.
\<close>

definition valid_domain :: "domain_parameters \<Rightarrow> bool" where
  "valid_domain curve \<longleftrightarrow>
     is_prime (curve_p curve) \<and> is_prime (curve_n curve) \<and>
     (4 * curve_a curve * curve_a curve * curve_a curve +
        27 * curve_b curve * curve_b curve) mod curve_p curve \<noteq> 0 \<and>
     on_curve (curve_G curve) curve \<and>
     point_infinity (scalar_multiplication (curve_n curve) (curve_G curve) curve) \<and>
     list_all (\<lambda>k. \<not> point_infinity (scalar_multiplication k (curve_G curve) curve))
       [1..curve_n curve - 1]"

section \<open>What signing and verification need of the collaborators\<close>

text \<open>
  The contracts of the specification's section 6, as far as the round trip of a signature
  uses them.  Multiples of the base point add and compose as the scalars do, depend on the
  scalar modulo \<open>n\<close> only, are finite points for the scalars strictly between 0 and \<open>n\<close>
  and the point at infinity for the scalar 0; the inverse is an inverse wherever the value
  is not a multiple of the (prime) modulus.
\<close>

definition group_contract :: "collaborators \<Rightarrow> domain_parameters \<Rightarrow> bool" where
  "group_contract ops curve \<longleftrightarrow>
     (\<forall>a b. 0 \<le> a \<and> 0 \<le> b \<longrightarrow>
        point_addition ops
          (point_multiplication ops a (curve_G curve) curve)
          (point_multiplication ops b (curve_G curve) curve) curve =
        point_multiplication ops (a + b) (curve_G curve) curve) \<and>
     (\<forall>a b. 0 \<le> a \<and> 0 \<le> b \<longrightarrow>
        point_multiplication ops a (point_multiplication ops b (curve_G curve) curve) curve =
        point_multiplication ops (a * b) (curve_G curve) curve) \<and>
     (\<forall>a. 0 \<le> a \<longrightarrow>
        point_multiplication ops a (curve_G curve) curve =
        point_multiplication ops (a mod curve_n curve) (curve_G curve) curve) \<and>
     (\<forall>a. 0 < a \<and> a < curve_n curve \<longrightarrow>
        \<not> point_infinity (point_multiplication ops a (curve_G curve) curve)) \<and>
     point_infinity (point_multiplication ops 0 (curve_G curve) curve)"

definition inverse_contract :: "collaborators \<Rightarrow> int \<Rightarrow> bool" where
  "inverse_contract ops m \<longleftrightarrow>
     (\<forall>v. v mod m \<noteq> 0 \<longrightarrow> (number_theory_inverse ops v m * v) mod m = 1)"

section \<open>Facts about the GMP functions\<close>

lemma mpz_cmp_less [simp]: "mpz_cmp a b < 0 \<longleftrightarrow> a < b"
  by (simp add: mpz_cmp_def)

lemma mpz_cmp_le [simp]: "mpz_cmp a b \<le> 0 \<longleftrightarrow> a \<le> b"
  by (simp add: mpz_cmp_def sgn_if)

lemma mpz_cmp_eq [simp]: "mpz_cmp a b = 0 \<longleftrightarrow> a = b"
  by (simp add: mpz_cmp_def sgn_if)

lemma mpz_sgn_eq_0 [simp]: "mpz_sgn a = 0 \<longleftrightarrow> a = 0"
  by (simp add: mpz_sgn_def sgn_if)

lemma mpz_mod_pos [simp]: "0 < d \<Longrightarrow> mpz_mod a d = Inr (a mod d)"
  by (simp add: mpz_mod_def)

section \<open>The nonce\<close>

text \<open>
  For a group order above 2 the draw returns exactly the integers from 0 to \<open>n - 3\<close>:
  every result lies there, and every integer there is the result for some generator state.
\<close>

lemma draw_nonce_range:
  assumes "2 < curve_n curve" and "draw_nonce raw curve = Inr k"
  shows "0 \<le> k \<and> k \<le> curve_n curve - 3"
proof -
  from assms(1) have "int raw mod (curve_n curve - 2) < curve_n curve - 2"
    by (simp add: pos_mod_bound)
  with assms show ?thesis
    by (auto simp add: draw_nonce_def mpz_urandomm_def)
qed

lemma draw_nonce_reaches:
  assumes "0 \<le> k" and "k \<le> curve_n curve - 3"
  shows "draw_nonce (nat k) curve = Inr k"
  using assms by (simp add: draw_nonce_def mpz_urandomm_def)

section \<open>One pass of the signing loop\<close>

lemma compute_s_pos:
  assumes "0 < curve_n curve"
  shows "compute_s ops k r message private_key curve =
           Inr ((((message + private_key * r) mod curve_n curve) *
                  number_theory_inverse ops k (curve_n curve)) mod curve_n curve)"
  using assms by (simp add: compute_s_def)

lemma sign_attempt_pos:
  assumes "0 < curve_n curve" and "draw_nonce raw curve = Inr k"
  shows "sign_attempt ops raw message private_key curve =
           (let r = point_x (point_multiplication ops k (curve_G curve) curve) mod curve_n curve
            in if r = 0 then None
               else Some (Inr \<lparr>sig_r = r,
                           sig_s = (((message + private_key * r) mod curve_n curve) *
                                      number_theory_inverse ops k (curve_n curve))
                                     mod curve_n curve\<rparr>))"
  using assms by (simp add: sign_attempt_def compute_s_pos Let_def)

lemma sign_attempt_signedD:
  assumes "0 < curve_n curve"
    and "sign_attempt ops raw message private_key curve = Some (Inr sig)"
  obtains k where "draw_nonce raw curve = Inr k"
    and "sig_r sig = point_x (point_multiplication ops k (curve_G curve) curve) mod curve_n curve"
    and "sig_r sig \<noteq> 0"
    and "sig_s sig = (((message + private_key * sig_r sig) mod curve_n curve) *
                       number_theory_inverse ops k (curve_n curve)) mod curve_n curve"
proof (cases "draw_nonce raw curve")
  case (Inl e)
  with assms(2) show ?thesis
    by (simp add: sign_attempt_def)
next
  case (Inr k)
  from assms(2) sign_attempt_pos [OF assms(1) Inr, of ops message private_key]
  have "sig_r sig = point_x (point_multiplication ops k (curve_G curve) curve) mod curve_n curve
        \<and> sig_r sig \<noteq> 0
        \<and> sig_s sig = (((message + private_key * sig_r sig) mod curve_n curve) *
                       number_theory_inverse ops k (curve_n curve)) mod curve_n curve"
    by (auto simp add: Let_def split: if_splits)
  with Inr that show ?thesis
    by blast
qed

section \<open>The signing loop\<close>

lemma sign_pass_live:
  "sign_pass ops False raw message private_key curve =
   sign_attempt ops raw message private_key curve"
  by (simp add: sign_pass_def sign_attempt_def split: sum.splits)

lemma sign_pass_released:
  "sign_pass ops True raw message private_key curve =
     (case draw_nonce raw curve of
        Inl e \<Rightarrow> Some (Inl e)
      | Inr k \<Rightarrow> Some (Inl Released_point_used))"
  by (simp add: sign_pass_def split: sum.splits)

text \<open>What the first pass returns or stops with, \<open>signature_sign\<close> returns or stops with.\<close>

lemma sign_loop_first_pass:
  assumes "sign_attempt ops raw message private_key curve = Some res"
  shows "sign_loop ops False (raw # raws) message private_key curve = Some res"
  using assms by (simp add: sign_pass_live)

lemma signature_sign_first_pass:
  assumes "0 < curve_n curve"
    and "mpz_sizeinbase_2 message \<le> mpz_sizeinbase_2 (curve_n curve)"
    and "draw_nonce raw curve = Inr k"
    and "point_x (point_multiplication ops k (curve_G curve) curve) mod curve_n curve \<noteq> 0"
  shows "signature_sign ops (raw # raws) message private_key curve =
           Some (Inr \<lparr>sig_r =
                        point_x (point_multiplication ops k (curve_G curve) curve)
                          mod curve_n curve,
                      sig_s =
                        (((message + private_key *
                             (point_x (point_multiplication ops k (curve_G curve) curve)
                                mod curve_n curve)) mod curve_n curve) *
                           number_theory_inverse ops k (curve_n curve)) mod curve_n curve\<rparr>)"
proof -
  from assms(4) sign_attempt_pos [OF assms(1) assms(3), of ops message private_key]
  have "sign_attempt ops raw message private_key curve =
           Some (Inr \<lparr>sig_r =
                        point_x (point_multiplication ops k (curve_G curve) curve)
                          mod curve_n curve,
                      sig_s =
                        (((message + private_key *
                             (point_x (point_multiplication ops k (curve_G curve) curve)
                                mod curve_n curve)) mod curve_n curve) *
                           number_theory_inverse ops k (curve_n curve)) mod curve_n curve\<rparr>)"
    by (simp add: Let_def)
  then have "sign_loop ops False (raw # raws) message private_key curve =
           Some (Inr \<lparr>sig_r =
                        point_x (point_multiplication ops k (curve_G curve) curve)
                          mod curve_n curve,
                      sig_s =
                        (((message + private_key *
                             (point_x (point_multiplication ops k (curve_G curve) curve)
                                mod curve_n curve)) mod curve_n curve) *
                           number_theory_inverse ops k (curve_n curve)) mod curve_n curve\<rparr>)"
    by (rule sign_loop_first_pass)
  with assms(2) show ?thesis
    by (simp add: signature_sign_def)
qed

text \<open>A pass that starts with \<open>Q\<close> released never returns a signature.\<close>

lemma sign_loop_released:
  "sign_loop ops True raws message private_key curve \<noteq> Some (Inr sig)"
  by (cases raws) (auto simp add: sign_pass_released split: sum.splits)

text \<open>So a signature that \<open>signature_sign\<close> returns is the one of its first pass.\<close>

lemma signature_sign_SomeD:
  assumes "signature_sign ops raws message private_key curve = Some (Inr sig)"
  obtains raw rest where "raws = raw # rest"
    and "sign_attempt ops raw message private_key curve = Some (Inr sig)"
proof -
  from assms have loop: "sign_loop ops False raws message private_key curve = Some (Inr sig)"
    by (simp add: signature_sign_def split: if_splits)
  show ?thesis
  proof (cases raws)
    case Nil
    with loop show ?thesis by simp
  next
    case (Cons raw rest)
    show ?thesis
    proof (cases "sign_attempt ops raw message private_key curve")
      case None
      with loop Cons have "sign_loop ops True rest message private_key curve = Some (Inr sig)"
        by (simp add: sign_pass_live)
      with sign_loop_released show ?thesis
        by blast
    next
      case (Some res)
      with loop Cons have "res = Inr sig"
        by (simp add: sign_pass_live)
      with Some Cons that show ?thesis
        by blast
    qed
  qed
qed

lemma returned_r_in_range:
  assumes "0 < curve_n curve"
    and "signature_sign ops raws message private_key curve = Some (Inr sig)"
  shows "1 \<le> sig_r sig \<and> sig_r sig \<le> curve_n curve - 1"
proof -
  from assms(2) obtain raw where
    "sign_attempt ops raw message private_key curve = Some (Inr sig)"
    by (rule signature_sign_SomeD)
  with assms(1) obtain k where
    r: "sig_r sig =
      point_x (point_multiplication ops k (curve_G curve) curve) mod curve_n curve"
    and nz: "sig_r sig \<noteq> 0"
    by (rule sign_attempt_signedD)
  from assms(1) r have "0 \<le> sig_r sig" and "sig_r sig < curve_n curve"
    by simp_all
  with nz show ?thesis
    by simp
qed

text \<open>
  A first pass with \<open>r = 0\<close> jumps back, and the next pass stops on the released point.
\<close>

lemma retry_uses_released_point:
  assumes "sign_attempt ops raw message private_key curve = None"
  shows "sign_loop ops False (raw # raw' # raws) message private_key curve =
           Some (Inl Released_point_used)"
proof -
  from assms have "curve_n curve - 2 \<noteq> 0"
    by (auto simp add: sign_attempt_def draw_nonce_def mpz_urandomm_def split: if_splits)
  then obtain k' where "draw_nonce raw' curve = Inr k'"
    by (simp add: draw_nonce_def mpz_urandomm_def)
  with assms show ?thesis
    by (simp add: sign_pass_live sign_pass_released)
qed

lemma sign_pass_not_assertion:
  "sign_pass ops released raw message private_key curve \<noteq> Some (Inl Assertion_failed)"
  by (auto simp add: sign_pass_def sign_attempt_def compute_s_def draw_nonce_def
      mpz_urandomm_def mpz_mod_def Let_def split: sum.splits if_splits)

lemma sign_loop_not_assertion:
  "sign_loop ops released raws message private_key curve \<noteq> Some (Inl Assertion_failed)"
proof (induction raws arbitrary: released)
  case Nil
  show ?case by simp
next
  case (Cons raw raws)
  show ?case
  proof (cases "sign_pass ops released raw message private_key curve")
    case None
    with Cons.IH show ?thesis by simp
  next
    case (Some res)
    with sign_pass_not_assertion [of ops released raw message private_key curve]
    show ?thesis by simp
  qed
qed

section \<open>Verification for a positive group order\<close>

lemma range_check_rejects_iff:
  "range_check_rejects sig curve \<longleftrightarrow>
     sig_r sig < 1 \<and> curve_n curve \<le> sig_r sig \<and> sig_s sig < 1 \<and> curve_n curve \<le> sig_s sig"
  by (simp add: range_check_rejects_def)

lemma range_check_passes:
  assumes "1 \<le> curve_n curve"
  shows "\<not> range_check_rejects sig curve"
  using assms by (auto simp add: range_check_rejects_iff)

lemma verify_equation_pos:
  assumes "0 < curve_n curve"
  shows "verify_equation ops message sig public_key curve =
           Inr (accepts_by_spec ops message sig public_key curve)"
  using assms by (auto simp add: verify_equation_def accepts_by_spec_def Let_def)

text \<open>
  The signature \<open>(0, 0)\<close> passes the range check of every positive group order; what
  \<open>signature_verify\<close> returns for it is decided by the value of \<open>number_theory_inverse\<close> at
  0, where no inverse exists.
\<close>

lemma verify_zero_signature:
  assumes "0 < curve_n curve"
  shows "signature_verify ops message (signature_set_ui sig 0 0) public_key curve =
           Inr (let n = curve_n curve;
                    w = number_theory_inverse ops 0 n;
                    X = point_addition ops
                          (point_multiplication ops (((message mod n) * w) mod n)
                             (curve_G curve) curve)
                          (point_multiplication ops 0 public_key curve) curve
                in \<not> point_infinity X \<and> point_x X = 0)"
proof -
  from assms have "\<not> range_check_rejects (signature_set_ui sig 0 0) curve"
    by (simp add: range_check_passes)
  then show ?thesis
    using verify_equation_pos [OF assms, of ops message "signature_set_ui sig 0 0" public_key]
    by (simp add: signature_verify_def accepts_by_spec_def signature_set_ui_def Let_def)
qed

section \<open>The round trip under the collaborators' contracts\<close>

lemma group_contract_add:
  assumes "group_contract ops curve" and "0 \<le> a" and "0 \<le> b"
  shows "point_addition ops
          (point_multiplication ops a (curve_G curve) curve)
          (point_multiplication ops b (curve_G curve) curve) curve =
        point_multiplication ops (a + b) (curve_G curve) curve"
  using assms unfolding group_contract_def by blast

lemma group_contract_mult:
  assumes "group_contract ops curve" and "0 \<le> a" and "0 \<le> b"
  shows "point_multiplication ops a (point_multiplication ops b (curve_G curve) curve) curve =
        point_multiplication ops (a * b) (curve_G curve) curve"
  using assms unfolding group_contract_def by blast

lemma group_contract_mod:
  assumes "group_contract ops curve" and "0 \<le> a"
  shows "point_multiplication ops a (curve_G curve) curve =
        point_multiplication ops (a mod curve_n curve) (curve_G curve) curve"
  using assms unfolding group_contract_def by blast

lemma group_contract_finite:
  assumes "group_contract ops curve" and "0 < a" and "a < curve_n curve"
  shows "\<not> point_infinity (point_multiplication ops a (curve_G curve) curve)"
  using assms unfolding group_contract_def by blast

lemma group_contract_zero:
  assumes "group_contract ops curve"
  shows "point_infinity (point_multiplication ops 0 (curve_G curve) curve)"
  using assms unfolding group_contract_def by blast

lemma inverse_contractD:
  assumes "inverse_contract ops m" and "v mod m \<noteq> 0"
  shows "(number_theory_inverse ops v m * v) mod m = 1"
  using assms unfolding inverse_contract_def by blast

text \<open>
  A signature that one pass returns is accepted by \<open>signature_verify\<close> for the public key
  of the same private key, when the collaborators keep their contracts, the nonce is not 0,
  the x-coordinate of \<open>k G\<close> is below \<open>n\<close> (so that reducing it modulo \<open>n\<close> does not change
  it) and \<open>s\<close> is not 0.
\<close>

lemma sign_then_verify_accepts:
  assumes n: "2 < curve_n curve"
    and grp: "group_contract ops curve"
    and inv: "inverse_contract ops (curve_n curve)"
    and d: "0 \<le> private_key"
    and k: "draw_nonce raw curve = Inr k"
    and k0: "k \<noteq> 0"
    and x: "0 \<le> point_x (point_multiplication ops k (curve_G curve) curve)"
      "point_x (point_multiplication ops k (curve_G curve) curve) < curve_n curve"
    and sig: "sign_attempt ops raw message private_key curve = Some (Inr sig)"
    and s0: "sig_s sig \<noteq> 0"
  shows "signature_verify ops message sig
           (signature_generate_key ops private_key curve) curve = Inr True"
proof -
  let ?n = "curve_n curve"
  let ?G = "curve_G curve"
  let ?mul = "\<lambda>a P. point_multiplication ops a P curve"
  let ?R = "?mul k ?G"
  from n have npos: "0 < ?n" by simp
  from draw_nonce_range [OF n k] k0 have krange: "0 < k" "k < ?n"
    by simp_all
  then have kmod: "k mod ?n = k"
    by simp
  from npos sig obtain k' where k': "draw_nonce raw curve = Inr k'"
    and r': "sig_r sig = point_x (?mul k' ?G) mod ?n"
    and s': "sig_s sig = (((message + private_key * sig_r sig) mod ?n) *
                       number_theory_inverse ops k' ?n) mod ?n"
    by (rule sign_attempt_signedD)
  from k k' have "k' = k" by simp
  with r' s' x have r: "sig_r sig = point_x ?R"
    and s: "sig_s sig = (((message + private_key * sig_r sig) mod ?n) *
                       number_theory_inverse ops k ?n) mod ?n"
    by simp_all
  let ?e = "message + private_key * sig_r sig"
  let ?t1 = "number_theory_inverse ops k ?n"
  let ?w = "number_theory_inverse ops (sig_s sig) ?n"
  let ?u1 = "((message mod ?n) * ?w) mod ?n"
  let ?u2 = "(sig_r sig * ?w) mod ?n"
  from kmod k0 have "k mod ?n \<noteq> 0"
    by simp
  with inv have t1: "(?t1 * k) mod ?n = 1"
    by (rule inverse_contractD)
  from s npos have "0 \<le> sig_s sig" "sig_s sig < ?n"
    by simp_all
  with s0 have "sig_s sig mod ?n \<noteq> 0"
    by simp
  with inv have w: "(?w * sig_s sig) mod ?n = 1"
    by (rule inverse_contractD)
  have ks: "(k * sig_s sig) mod ?n = ?e mod ?n"
  proof -
    have "(k * sig_s sig) mod ?n = (k * (((?e mod ?n) * ?t1) mod ?n)) mod ?n"
      by (subst s) (rule refl)
    also have "\<dots> = (k * (?e * ?t1)) mod ?n"
      by (simp add: mod_simps)
    also have "\<dots> = ((?t1 * k) * ?e) mod ?n"
      by (simp add: ac_simps)
    also have "\<dots> = (((?t1 * k) mod ?n) * ?e) mod ?n"
      by (simp only: mod_mult_left_eq)
    also have "\<dots> = ?e mod ?n"
      by (simp only: t1 mult_1)
    finally show ?thesis .
  qed
  have scalar: "(?u1 + ?u2 * private_key) mod ?n = k"
  proof -
    have u1: "?u1 mod ?n = (message * ?w) mod ?n"
      by (simp add: mod_simps)
    have u2: "(?u2 * private_key) mod ?n = ((sig_r sig * ?w) * private_key) mod ?n"
      by (simp only: mod_mult_left_eq)
    have "(?u1 + ?u2 * private_key) mod ?n =
            (?u1 mod ?n + (?u2 * private_key) mod ?n) mod ?n"
      by (simp only: mod_add_eq)
    also have "\<dots> =
        ((message * ?w) mod ?n + ((sig_r sig * ?w) * private_key) mod ?n) mod ?n"
      by (simp only: u1 u2)
    also have "\<dots> = (message * ?w + (sig_r sig * ?w) * private_key) mod ?n"
      by (simp only: mod_add_eq)
    also have "\<dots> = (?w * ?e) mod ?n"
      by (simp add: algebra_simps)
    also have "\<dots> = (?w * (?e mod ?n)) mod ?n"
      by (simp only: mod_mult_right_eq)
    also have "\<dots> = (?w * ((k * sig_s sig) mod ?n)) mod ?n"
      by (simp only: ks)
    also have "\<dots> = (?w * (k * sig_s sig)) mod ?n"
      by (simp only: mod_mult_right_eq)
    also have "\<dots> = (k * (?w * sig_s sig)) mod ?n"
      by (simp only: mult.left_commute)
    also have "\<dots> = (k * ((?w * sig_s sig) mod ?n)) mod ?n"
      by (simp only: mod_mult_right_eq)
    also have "\<dots> = k"
      by (simp only: w mult_1_right kmod)
    finally show ?thesis .
  qed
  from npos have u: "0 \<le> ?u1" "0 \<le> ?u2"
    by simp_all
  with d have ud: "0 \<le> ?u2 * private_key" "0 \<le> ?u1 + ?u2 * private_key"
    by simp_all
  have "?mul ?u2 (?mul private_key ?G) = ?mul (?u2 * private_key) ?G"
    using grp u(2) d by (rule group_contract_mult)
  then have "point_addition ops (?mul ?u1 ?G) (?mul ?u2 (?mul private_key ?G)) curve =
        point_addition ops (?mul ?u1 ?G) (?mul (?u2 * private_key) ?G) curve"
    by (simp only:)
  also have "\<dots> = ?mul (?u1 + ?u2 * private_key) ?G"
    using grp u(1) ud(1) by (rule group_contract_add)
  also have "\<dots> = ?mul ((?u1 + ?u2 * private_key) mod ?n) ?G"
    using grp ud(2) by (rule group_contract_mod)
  finally have X: "point_addition ops (?mul ?u1 ?G) (?mul ?u2 (?mul private_key ?G)) curve = ?R"
    by (simp only: scalar)
  from grp krange have fin: "\<not> point_infinity ?R"
    by (rule group_contract_finite)
  have "accepts_by_spec ops message sig (signature_generate_key ops private_key curve) curve"
    unfolding accepts_by_spec_def signature_generate_key_def Let_def
    using X fin r by simp
  with verify_equation_pos [OF npos, of ops message sig
      "signature_generate_key ops private_key curve"] range_check_passes [of curve sig] npos
  show ?thesis
    by (simp add: signature_verify_def)
qed

text \<open>
  A signature with \<open>s = 0\<close> that one pass returns is rejected, whatever
  \<open>number_theory_inverse\<close> returns for 0: the two scalars of the verification add up to a
  multiple of \<open>n\<close>, so \<open>X\<close> is the point at infinity.
\<close>

lemma zero_s_signature_rejected:
  assumes n: "2 < curve_n curve"
    and grp: "group_contract ops curve"
    and inv: "inverse_contract ops (curve_n curve)"
    and d: "0 \<le> private_key"
    and k: "draw_nonce raw curve = Inr k"
    and k0: "k \<noteq> 0"
    and sig: "sign_attempt ops raw message private_key curve = Some (Inr sig)"
    and s0: "sig_s sig = 0"
  shows "signature_verify ops message sig
           (signature_generate_key ops private_key curve) curve = Inr False"
proof -
  let ?n = "curve_n curve"
  let ?G = "curve_G curve"
  let ?mul = "\<lambda>a P. point_multiplication ops a P curve"
  from n have npos: "0 < ?n" by simp
  from draw_nonce_range [OF n k] k0 have "0 < k" "k < ?n"
    by simp_all
  then have "k mod ?n \<noteq> 0"
    by simp
  let ?t1 = "number_theory_inverse ops k ?n"
  from inv \<open>k mod ?n \<noteq> 0\<close> have t1: "(?t1 * k) mod ?n = 1"
    by (rule inverse_contractD)
  from npos sig obtain k' where k': "draw_nonce raw curve = Inr k'"
    and s': "sig_s sig = (((message + private_key * sig_r sig) mod ?n) *
                       number_theory_inverse ops k' ?n) mod ?n"
    by (rule sign_attempt_signedD)
  from k k' have "k' = k" by simp
  let ?e = "message + private_key * sig_r sig"
  from s' s0 \<open>k' = k\<close> have z: "((?e mod ?n) * ?t1) mod ?n = 0"
    by simp
  have e0: "?e mod ?n = 0"
  proof -
    have "?e mod ?n = (((?t1 * k) mod ?n) * ?e) mod ?n"
      by (simp only: t1 mult_1)
    also have "\<dots> = ((?t1 * k) * ?e) mod ?n"
      by (simp only: mod_mult_left_eq)
    also have "\<dots> = (k * (?e * ?t1)) mod ?n"
      by (simp add: ac_simps)
    also have "\<dots> = (k * (((?e mod ?n) * ?t1) mod ?n)) mod ?n"
      by (simp add: mod_simps)
    also have "\<dots> = 0"
      by (simp only: z) simp
    finally show ?thesis .
  qed
  let ?w = "number_theory_inverse ops (sig_s sig) ?n"
  let ?u1 = "((message mod ?n) * ?w) mod ?n"
  let ?u2 = "(sig_r sig * ?w) mod ?n"
  have scalar: "(?u1 + ?u2 * private_key) mod ?n = 0"
  proof -
    have u1: "?u1 mod ?n = (message * ?w) mod ?n"
      by (simp add: mod_simps)
    have u2: "(?u2 * private_key) mod ?n = ((sig_r sig * ?w) * private_key) mod ?n"
      by (simp only: mod_mult_left_eq)
    have "(?u1 + ?u2 * private_key) mod ?n =
            (?u1 mod ?n + (?u2 * private_key) mod ?n) mod ?n"
      by (simp only: mod_add_eq)
    also have "\<dots> =
        ((message * ?w) mod ?n + ((sig_r sig * ?w) * private_key) mod ?n) mod ?n"
      by (simp only: u1 u2)
    also have "\<dots> = (message * ?w + (sig_r sig * ?w) * private_key) mod ?n"
      by (simp only: mod_add_eq)
    also have "\<dots> = (?w * ?e) mod ?n"
      by (simp add: algebra_simps)
    also have "\<dots> = (?w * (?e mod ?n)) mod ?n"
      by (simp only: mod_mult_right_eq)
    also have "\<dots> = 0"
      by (simp only: e0) simp
    finally show ?thesis .
  qed
  from npos have u: "0 \<le> ?u1" "0 \<le> ?u2"
    by simp_all
  with d have ud: "0 \<le> ?u2 * private_key" "0 \<le> ?u1 + ?u2 * private_key"
    by simp_all
  have "?mul ?u2 (?mul private_key ?G) = ?mul (?u2 * private_key) ?G"
    using grp u(2) d by (rule group_contract_mult)
  then have "point_addition ops (?mul ?u1 ?G) (?mul ?u2 (?mul private_key ?G)) curve =
        point_addition ops (?mul ?u1 ?G) (?mul (?u2 * private_key) ?G) curve"
    by (simp only:)
  also have "\<dots> = ?mul (?u1 + ?u2 * private_key) ?G"
    using grp u(1) ud(1) by (rule group_contract_add)
  also have "\<dots> = ?mul ((?u1 + ?u2 * private_key) mod ?n) ?G"
    using grp ud(2) by (rule group_contract_mod)
  finally have X: "point_addition ops (?mul ?u1 ?G) (?mul ?u2 (?mul private_key ?G)) curve =
      ?mul 0 ?G"
    by (simp only: scalar)
  have "\<not> accepts_by_spec ops message sig (signature_generate_key ops private_key curve) curve"
    unfolding accepts_by_spec_def signature_generate_key_def Let_def
    using X group_contract_zero [OF grp] by simp
  with verify_equation_pos [OF npos, of ops message sig
      "signature_generate_key ops private_key curve"] range_check_passes [of curve sig] npos
  show ?thesis
    by (simp add: signature_verify_def)
qed

section \<open>The code on the small curve\<close>

lemma toy_order_pos: "0 < curve_n toy_curve"
  by (simp add: toy_curve_def)

lemma toy_sign_3:
  "signature_sign reference_ops [3] 7 5 toy_curve = Some (Inr \<lparr>sig_r = 11, sig_s = 12\<rparr>)"
  by code_simp

lemma toy_attempt_3:
  "sign_attempt reference_ops 3 7 5 toy_curve = Some (Inr \<lparr>sig_r = 11, sig_s = 12\<rparr>)"
  by code_simp

lemma toy_bits_7: "mpz_sizeinbase_2 7 \<le> mpz_sizeinbase_2 (curve_n toy_curve)"
  by code_simp

lemma toy_bits_16: "mpz_sizeinbase_2 (curve_n toy_curve) < mpz_sizeinbase_2 16"
  by code_simp

text \<open>
  The textbook collaborators keep the contracts on the small curve: the thirteen multiples
  of the base point are closed under the addition, which acts on them as the addition of
  the scalars modulo 13.
\<close>

lemma toy_successor_table:
  "list_all (\<lambda>j. affine_addition (curve_G toy_curve)
                     (repeated_addition j (curve_G toy_curve) toy_curve) toy_curve =
                   repeated_addition (Suc j mod 13) (curve_G toy_curve) toy_curve) [0..<13]"
  by code_simp

lemma toy_addition_table:
  "list_all (\<lambda>i. list_all (\<lambda>j.
       affine_addition (repeated_addition i (curve_G toy_curve) toy_curve)
                       (repeated_addition j (curve_G toy_curve) toy_curve) toy_curve =
       repeated_addition ((i + j) mod 13) (curve_G toy_curve) toy_curve) [0..<13]) [0..<13]"
  by code_simp

lemma toy_finite_table:
  "list_all (\<lambda>j. \<not> point_infinity (repeated_addition j (curve_G toy_curve) toy_curve))
     [1..<13]"
  by code_simp

lemma toy_inverse_table:
  "list_all (\<lambda>u. (modular_inverse u 13 * u) mod 13 = 1) [1..12]"
  by code_simp

lemma toy_order: "curve_n toy_curve = 13"
  by (simp add: toy_curve_def)

lemma toy_successor:
  assumes "j < 13"
  shows "affine_addition (curve_G toy_curve)
           (repeated_addition j (curve_G toy_curve) toy_curve) toy_curve =
         repeated_addition (Suc j mod 13) (curve_G toy_curve) toy_curve"
  using toy_successor_table assms by (simp add: list_all_iff)

lemma toy_addition:
  assumes "i < 13" and "j < 13"
  shows "affine_addition (repeated_addition i (curve_G toy_curve) toy_curve)
           (repeated_addition j (curve_G toy_curve) toy_curve) toy_curve =
         repeated_addition ((i + j) mod 13) (curve_G toy_curve) toy_curve"
  using toy_addition_table assms by (simp add: list_all_iff)

lemma toy_multiple_mod:
  "repeated_addition a (curve_G toy_curve) toy_curve =
   repeated_addition (a mod 13) (curve_G toy_curve) toy_curve"
proof (induction a)
  case 0
  show ?case by simp
next
  case (Suc a)
  have "repeated_addition (Suc a) (curve_G toy_curve) toy_curve =
        affine_addition (curve_G toy_curve)
          (repeated_addition (a mod 13) (curve_G toy_curve) toy_curve) toy_curve"
    using Suc.IH by simp
  also have "\<dots> = repeated_addition (Suc (a mod 13) mod 13) (curve_G toy_curve) toy_curve"
    by (rule toy_successor) simp
  also have "Suc (a mod 13) mod 13 = Suc a mod 13"
    by (rule mod_Suc_eq)
  finally show ?case .
qed

lemma toy_multiple_add:
  "affine_addition (repeated_addition a (curve_G toy_curve) toy_curve)
     (repeated_addition b (curve_G toy_curve) toy_curve) toy_curve =
   repeated_addition (a + b) (curve_G toy_curve) toy_curve"
proof -
  have "affine_addition (repeated_addition a (curve_G toy_curve) toy_curve)
          (repeated_addition b (curve_G toy_curve) toy_curve) toy_curve =
        affine_addition (repeated_addition (a mod 13) (curve_G toy_curve) toy_curve)
          (repeated_addition (b mod 13) (curve_G toy_curve) toy_curve) toy_curve"
    using toy_multiple_mod [of a] toy_multiple_mod [of b] by simp
  also have "\<dots> =
      repeated_addition ((a mod 13 + b mod 13) mod 13) (curve_G toy_curve) toy_curve"
    by (rule toy_addition) simp_all
  also have "(a mod 13 + b mod 13) mod 13 = (a + b) mod 13"
    by (rule mod_add_eq)
  also have "repeated_addition ((a + b) mod 13) (curve_G toy_curve) toy_curve =
      repeated_addition (a + b) (curve_G toy_curve) toy_curve"
    by (rule toy_multiple_mod [symmetric])
  finally show ?thesis .
qed

lemma toy_multiple_multiple:
  "repeated_addition a (repeated_addition b (curve_G toy_curve) toy_curve) toy_curve =
   repeated_addition (a * b) (curve_G toy_curve) toy_curve"
proof (induction a)
  case 0
  show ?case by simp
next
  case (Suc a)
  then show ?case
    by (simp add: toy_multiple_add)
qed

lemma toy_multiple_finite:
  assumes "0 < j" and "j < 13"
  shows "\<not> point_infinity (repeated_addition j (curve_G toy_curve) toy_curve)"
  using toy_finite_table assms by (simp add: list_all_iff)

lemma toy_group_contract: "group_contract reference_ops toy_curve"
  unfolding group_contract_def
proof (intro conjI allI impI)
  fix a b :: int
  assume ab: "0 \<le> a \<and> 0 \<le> b"
  then show "point_addition reference_ops
       (point_multiplication reference_ops a (curve_G toy_curve) toy_curve)
       (point_multiplication reference_ops b (curve_G toy_curve) toy_curve) toy_curve =
      point_multiplication reference_ops (a + b) (curve_G toy_curve) toy_curve"
    by (simp add: reference_ops_def scalar_multiplication_def toy_multiple_add nat_add_distrib)
  from ab show "point_multiplication reference_ops a
       (point_multiplication reference_ops b (curve_G toy_curve) toy_curve) toy_curve =
      point_multiplication reference_ops (a * b) (curve_G toy_curve) toy_curve"
    by (simp add: reference_ops_def scalar_multiplication_def toy_multiple_multiple
        nat_mult_distrib)
next
  fix a :: int
  assume a: "0 \<le> a"
  then have "nat (a mod 13) = nat a mod 13"
    by (simp add: nat_mod_distrib)
  then show "point_multiplication reference_ops a (curve_G toy_curve) toy_curve =
      point_multiplication reference_ops (a mod curve_n toy_curve) (curve_G toy_curve) toy_curve"
    using toy_multiple_mod [of "nat a"]
    by (simp add: reference_ops_def scalar_multiplication_def toy_order)
next
  fix a :: int
  assume "0 < a \<and> a < curve_n toy_curve"
  then have "0 < nat a" and "nat a < 13"
    unfolding toy_order by linarith+
  then show "\<not> point_infinity
      (point_multiplication reference_ops a (curve_G toy_curve) toy_curve)"
    by (simp add: reference_ops_def scalar_multiplication_def toy_multiple_finite)
next
  show "point_infinity (point_multiplication reference_ops 0 (curve_G toy_curve) toy_curve)"
    by (simp add: reference_ops_def scalar_multiplication_def point_at_infinity_def)
qed

lemma modular_inverse_mod: "modular_inverse v m = modular_inverse (v mod m) m"
proof -
  have "(\<lambda>w. (v * w) mod m = 1) = (\<lambda>w. ((v mod m) * w) mod m = 1)"
    by (simp add: mod_mult_left_eq)
  then show ?thesis
    by (simp add: modular_inverse_def)
qed

lemma toy_inverse_contract: "inverse_contract reference_ops (curve_n toy_curve)"
  unfolding inverse_contract_def toy_order
proof (intro allI impI)
  fix v :: int
  assume "v mod 13 \<noteq> 0"
  moreover have "0 \<le> v mod 13" and "v mod 13 < 13"
    by simp_all
  ultimately have "1 \<le> v mod 13 \<and> v mod 13 \<le> 12"
    by linarith
  then have "v mod 13 \<in> set [1..12]"
    by simp
  with toy_inverse_table have "(modular_inverse (v mod 13) 13 * (v mod 13)) mod 13 = 1"
    unfolding list_all_iff by blast
  then have "(modular_inverse v 13 * (v mod 13)) mod 13 = 1"
    using modular_inverse_mod [of v 13] by simp
  then have "(modular_inverse v 13 * v) mod 13 = 1"
    by (simp add: mod_mult_right_eq)
  then show "(number_theory_inverse reference_ops v 13 * v) mod 13 = 1"
    by (simp add: reference_ops_def)
qed

lemma sign_then_verify_accepts_on_toy_curve:
  "signature_sign reference_ops [3] 7 5 toy_curve = Some (Inr \<lparr>sig_r = 11, sig_s = 12\<rparr>) \<and>
   signature_verify reference_ops 7 \<lparr>sig_r = 11, sig_s = 12\<rparr>
     (signature_generate_key reference_ops 5 toy_curve) toy_curve = Inr True"
proof -
  have n: "2 < curve_n toy_curve"
    by (simp add: toy_order)
  have k: "draw_nonce 3 toy_curve = Inr 3"
    by code_simp
  have x: "0 \<le> point_x (point_multiplication reference_ops 3 (curve_G toy_curve) toy_curve)"
    "point_x (point_multiplication reference_ops 3 (curve_G toy_curve) toy_curve)
       < curve_n toy_curve"
    by code_simp+
  have "signature_verify reference_ops 7 \<lparr>sig_r = 11, sig_s = 12\<rparr>
     (signature_generate_key reference_ops 5 toy_curve) toy_curve = Inr True"
    by (rule sign_then_verify_accepts [OF n toy_group_contract toy_inverse_contract _ k _ x
          toy_attempt_3]) simp_all
  with toy_sign_3 show ?thesis
    by simp
qed

lemma zero_s_signature_rejected_on_toy_curve:
  "signature_sign reference_ops [3] 10 5 toy_curve = Some (Inr \<lparr>sig_r = 11, sig_s = 0\<rparr>) \<and>
   signature_verify reference_ops 10 \<lparr>sig_r = 11, sig_s = 0\<rparr>
     (signature_generate_key reference_ops 5 toy_curve) toy_curve = Inr False"
proof -
  have n: "2 < curve_n toy_curve"
    by (simp add: toy_order)
  have k: "draw_nonce 3 toy_curve = Inr 3"
    by code_simp
  have att: "sign_attempt reference_ops 3 10 5 toy_curve =
      Some (Inr \<lparr>sig_r = 11, sig_s = 0\<rparr>)"
    by code_simp
  have sgn: "signature_sign reference_ops [3] 10 5 toy_curve =
      Some (Inr \<lparr>sig_r = 11, sig_s = 0\<rparr>)"
    by code_simp
  have "signature_verify reference_ops 10 \<lparr>sig_r = 11, sig_s = 0\<rparr>
     (signature_generate_key reference_ops 5 toy_curve) toy_curve = Inr False"
    by (rule zero_s_signature_rejected [OF n toy_group_contract toy_inverse_contract _ k _ att])
      simp_all
  with sgn show ?thesis
    by simp
qed

section \<open>The claims\<close>

text \<open>
  C1: sign and then verify.  The claim is that for every valid domain, private key \<open>d\<close> in
  \<open>[1, n - 1]\<close>, digest \<open>e\<close> of at most as many bits as \<open>n\<close> and nonce accepted by the
  loop, \<open>verify(e, sign(e, d), generate_key(d))\<close> is true.  On the curve
  \<open>y\<^sup>2 = x\<^sup>3 + 3\<close> over 19 elements, with \<open>n = 13\<close>, \<open>d = 5\<close>, \<open>e = 7\<close> and the nonce
  \<open>k = 2\<close>, the point \<open>k G\<close> is \<open>(14, 12)\<close>: signing reduces 14 modulo 13 and returns
  \<open>r = 1\<close>, \<open>s = 6\<close>; verification recomputes the same point and compares its
  x-coordinate 14 with \<open>r = 1\<close> without reducing it, and returns false.  (Where the
  x-coordinate is below \<open>n\<close>, the nonce is not 0 and \<open>s\<close> is not 0, the signature is
  accepted: \<open>sign_then_verify_accepts\<close>.)
\<close>

theorem sign_then_verify_rejected:
  "valid_domain toy_curve \<and>
   1 \<le> (5::int) \<and> 5 \<le> curve_n toy_curve - 1 \<and>
   mpz_sizeinbase_2 7 \<le> mpz_sizeinbase_2 (curve_n toy_curve) \<and>
   draw_nonce 2 toy_curve = Inr 2 \<and>
   point_multiplication reference_ops 2 (curve_G toy_curve) toy_curve =
     \<lparr>point_x = 14, point_y = 12, point_infinity = False\<rparr> \<and>
   signature_sign reference_ops [2] 7 5 toy_curve = Some (Inr \<lparr>sig_r = 1, sig_s = 6\<rparr>) \<and>
   signature_verify reference_ops 7 \<lparr>sig_r = 1, sig_s = 6\<rparr>
     (signature_generate_key reference_ops 5 toy_curve) toy_curve = Inr False"
  by code_simp

text \<open>
  C2: the range validation of \<open>signature_verify\<close>.  The claim is that a signature with
  \<open>r\<close> or \<open>s\<close> outside \<open>[1, n - 1]\<close> is rejected.  On the small curve, for the digest 7 and
  the public key of \<open>d = 5\<close>, the signature \<open>(14, 6)\<close> has \<open>r = 14 > n - 1\<close> and the
  signature \<open>(11, 25)\<close> has \<open>s = 25 > n - 1\<close>; both are accepted.
\<close>

theorem out_of_range_component_accepted:
  "valid_domain toy_curve \<and>
   \<not> (1 \<le> sig_r \<lparr>sig_r = 14, sig_s = 6\<rparr> \<and>
      sig_r \<lparr>sig_r = 14, sig_s = 6\<rparr> \<le> curve_n toy_curve - 1) \<and>
   signature_verify reference_ops 7 \<lparr>sig_r = 14, sig_s = 6\<rparr>
     (signature_generate_key reference_ops 5 toy_curve) toy_curve = Inr True \<and>
   \<not> (1 \<le> sig_s \<lparr>sig_r = 11, sig_s = 25\<rparr> \<and>
      sig_s \<lparr>sig_r = 11, sig_s = 25\<rparr> \<le> curve_n toy_curve - 1) \<and>
   signature_verify reference_ops 7 \<lparr>sig_r = 11, sig_s = 25\<rparr>
     (signature_generate_key reference_ops 5 toy_curve) toy_curve = Inr True"
  by code_simp

text \<open>
  C3: the range of the nonce.  The claim is that every nonce drawn lies in \<open>[1, n - 2]\<close>
  and that \<open>k = 0\<close> is never used.  The draw is below the bound \<open>n - 2\<close> and starts at 0:
  on the small curve the generator states 0 and 11 both give \<open>k = 0\<close>, the largest nonce
  is \<open>n - 3\<close>, and the pass with \<open>k = 0\<close> multiplies the base point by 0 (and then finds
  \<open>r = 0\<close> and goes back to the label).
\<close>

theorem nonce_zero_is_drawn:
  "valid_domain toy_curve \<and>
   draw_nonce 0 toy_curve = Inr 0 \<and>
   draw_nonce 11 toy_curve = Inr 0 \<and>
   draw_nonce 10 toy_curve = Inr (curve_n toy_curve - 3) \<and>
   point_multiplication reference_ops 0 (curve_G toy_curve) toy_curve = point_at_infinity \<and>
   sign_attempt reference_ops 0 7 5 toy_curve = None"
  by code_simp

text \<open>
  C4: for a group order \<open>n \<ge> 1\<close> the four comparisons of the range check cannot hold
  together (\<open>r < 1\<close> and \<open>n \<le> r\<close> already exclude each other), so the rejecting branch is
  never taken and \<open>signature_verify\<close> returns what lines 150 to 192 compute.
\<close>

theorem range_check_unreachable:
  assumes "1 \<le> curve_n curve"
  shows "\<not> (sig_r sig < 1 \<and> curve_n curve \<le> sig_r sig \<and>
            sig_s sig < 1 \<and> curve_n curve \<le> sig_s sig) \<and>
         \<not> range_check_rejects sig curve \<and>
         signature_verify ops message sig public_key curve =
           verify_equation ops message sig public_key curve"
proof -
  from assms have "\<not> (sig_r sig < 1 \<and> curve_n curve \<le> sig_r sig)"
    by linarith
  then show ?thesis
    by (auto simp add: signature_verify_def range_check_rejects_iff)
qed

theorem range_check_unreachable_witness:
  "1 \<le> curve_n toy_curve \<and>
   \<not> range_check_rejects \<lparr>sig_r = 0, sig_s = 0\<rparr> toy_curve \<and>
   signature_verify reference_ops 7 \<lparr>sig_r = 0, sig_s = 0\<rparr>
       (signature_generate_key reference_ops 5 toy_curve) toy_curve =
     verify_equation reference_ops 7 \<lparr>sig_r = 0, sig_s = 0\<rparr>
       (signature_generate_key reference_ops 5 toy_curve) toy_curve"
proof -
  have n: "1 \<le> curve_n toy_curve"
    by (simp add: toy_curve_def)
  show ?thesis
    using n range_check_unreachable [OF n, of "\<lparr>sig_r = 0, sig_s = 0\<rparr>" reference_ops 7
        "signature_generate_key reference_ops 5 toy_curve"]
    by simp
qed

text \<open>
  C5: for a positive group order, \<open>signature_verify\<close> accepts exactly when, with
  \<open>w = s\<^sup>-\<^sup>1 mod n\<close>, \<open>u1 = (message mod n) w mod n\<close>, \<open>u2 = r w mod n\<close> and
  \<open>X = u1 G + u2 Q\<close>, the point \<open>X\<close> is not the point at infinity and its x-coordinate is
  the integer \<open>r\<close> itself (the coordinate is not reduced modulo \<open>n\<close>).
\<close>

theorem verify_accepts_iff:
  assumes "0 < curve_n curve"
  shows "signature_verify ops message sig public_key curve =
           Inr (accepts_by_spec ops message sig public_key curve)"
proof -
  from assms have "\<not> range_check_rejects sig curve"
    by (simp add: range_check_passes)
  with verify_equation_pos [OF assms] show ?thesis
    by (simp add: signature_verify_def)
qed

theorem verify_accepts_iff_witness:
  "0 < curve_n toy_curve \<and>
   signature_verify reference_ops 7 \<lparr>sig_r = 11, sig_s = 12\<rparr>
       (signature_generate_key reference_ops 5 toy_curve) toy_curve = Inr True \<and>
   accepts_by_spec reference_ops 7 \<lparr>sig_r = 11, sig_s = 12\<rparr>
       (signature_generate_key reference_ops 5 toy_curve) toy_curve"
proof -
  have a: "accepts_by_spec reference_ops 7 \<lparr>sig_r = 11, sig_s = 12\<rparr>
             (signature_generate_key reference_ops 5 toy_curve) toy_curve"
    by code_simp
  show ?thesis
    using toy_order_pos a
      verify_accepts_iff [OF toy_order_pos, of reference_ops 7 "\<lparr>sig_r = 11, sig_s = 12\<rparr>"
        "signature_generate_key reference_ops 5 toy_curve"]
    by simp
qed

text \<open>
  C6: the second component.  For a positive group order and a message within the bit
  length, when the first nonce drawn is \<open>k\<close> and \<open>r\<close>, the x-coordinate of \<open>k G\<close> modulo
  \<open>n\<close>, is not zero, the sequence \<open>t1 = k\<^sup>-\<^sup>1 mod n\<close>, \<open>t2 = private_key r\<close>,
  \<open>t3 = message + t2\<close>, \<open>t2' = t3 mod n\<close>, \<open>t3' = t2' t1\<close>, \<open>s = t3' mod n\<close> is what
  lines 113 to 118 compute, \<open>signature_sign\<close> returns the signature \<open>(r, s)\<close>, and \<open>s\<close> is
  \<open>k\<^sup>-\<^sup>1 (message + private_key r) mod n\<close>, where \<open>k\<^sup>-\<^sup>1\<close> is what
  \<open>number_theory_inverse\<close> returns; when that is an inverse of \<open>k\<close> modulo \<open>n\<close>, then
  \<open>k s\<close> and \<open>message + private_key r\<close> are congruent modulo \<open>n\<close>.
\<close>

theorem sign_second_component:
  assumes "0 < curve_n curve"
    and "mpz_sizeinbase_2 message \<le> mpz_sizeinbase_2 (curve_n curve)"
    and "draw_nonce raw curve = Inr k"
    and "point_x (point_multiplication ops k (curve_G curve) curve) mod curve_n curve \<noteq> 0"
  shows "let n = curve_n curve;
             r = point_x (point_multiplication ops k (curve_G curve) curve) mod n;
             t1 = number_theory_inverse ops k n;
             t2 = private_key * r;
             t3 = message + t2;
             t2' = t3 mod n;
             t3' = t2' * t1;
             s = t3' mod n
         in compute_s ops k r message private_key curve = Inr s \<and>
            signature_sign ops (raw # raws) message private_key curve =
              Some (Inr \<lparr>sig_r = r, sig_s = s\<rparr>) \<and>
            s = (t1 * (message + private_key * r)) mod n \<and>
            ((t1 * k) mod n = 1 \<longrightarrow>
               (k * s) mod n = (message + private_key * r) mod n)"
proof -
  let ?n = "curve_n curve"
  let ?r = "point_x (point_multiplication ops k (curve_G curve) curve) mod ?n"
  let ?t1 = "number_theory_inverse ops k ?n"
  let ?e = "message + private_key * ?r"
  let ?s = "((?e mod ?n) * ?t1) mod ?n"
  have c: "compute_s ops k ?r message private_key curve = Inr ?s"
    using assms(1) by (rule compute_s_pos)
  have sg: "signature_sign ops (raw # raws) message private_key curve =
      Some (Inr \<lparr>sig_r = ?r, sig_s = ?s\<rparr>)"
    using assms by (rule signature_sign_first_pass)
  have "((?e mod ?n) * ?t1) mod ?n = (?e * ?t1) mod ?n"
    by (rule mod_mult_left_eq)
  then have s': "?s = (?t1 * ?e) mod ?n"
    by (simp add: mult.commute)
  have inv: "(k * ?s) mod ?n = ?e mod ?n" if "(?t1 * k) mod ?n = 1"
  proof -
    have "(k * ?s) mod ?n = (k * ((?t1 * ?e) mod ?n)) mod ?n"
      by (simp only: s')
    also have "\<dots> = (k * (?t1 * ?e)) mod ?n"
      by (simp only: mod_mult_right_eq)
    also have "\<dots> = ((?t1 * k) * ?e) mod ?n"
      by (simp add: ac_simps)
    also have "\<dots> = (((?t1 * k) mod ?n) * ?e) mod ?n"
      by (simp only: mod_mult_left_eq)
    also have "\<dots> = ?e mod ?n"
      by (simp only: that mult_1)
    finally show ?thesis .
  qed
  from c sg s' inv show ?thesis
    unfolding Let_def by blast
qed

theorem sign_second_component_witness:
  "0 < curve_n toy_curve \<and>
   mpz_sizeinbase_2 7 \<le> mpz_sizeinbase_2 (curve_n toy_curve) \<and>
   draw_nonce 3 toy_curve = Inr 3 \<and>
   point_x (point_multiplication reference_ops 3 (curve_G toy_curve) toy_curve)
     mod curve_n toy_curve \<noteq> 0 \<and>
   (let n = curve_n toy_curve;
        r = point_x (point_multiplication reference_ops 3 (curve_G toy_curve) toy_curve) mod n;
        t1 = number_theory_inverse reference_ops 3 n;
        t2 = 5 * r;
        t3 = 7 + t2;
        t2' = t3 mod n;
        t3' = t2' * t1;
        s = t3' mod n
    in compute_s reference_ops 3 r 7 5 toy_curve = Inr s \<and>
       signature_sign reference_ops [3, 4] 7 5 toy_curve =
         Some (Inr \<lparr>sig_r = r, sig_s = s\<rparr>) \<and>
       s = (t1 * (7 + 5 * r)) mod n \<and>
       ((t1 * 3) mod n = 1 \<longrightarrow> (3 * s) mod n = (7 + 5 * r) mod n)) \<and>
   signature_sign reference_ops [3, 4] 7 5 toy_curve =
     Some (Inr \<lparr>sig_r = 11, sig_s = 12\<rparr>)"
proof -
  have k: "draw_nonce 3 toy_curve = Inr 3"
    by code_simp
  have r: "point_x (point_multiplication reference_ops 3 (curve_G toy_curve) toy_curve)
     mod curve_n toy_curve \<noteq> 0"
    by code_simp
  have v: "signature_sign reference_ops [3, 4] 7 5 toy_curve =
     Some (Inr \<lparr>sig_r = 11, sig_s = 12\<rparr>)"
    by code_simp
  note t = sign_second_component [OF toy_order_pos toy_bits_7 k r,
      where private_key = 5 and raws = "[4]"]
  from toy_order_pos toy_bits_7 k r t v show ?thesis
    by (intro conjI)
qed

text \<open>
  C7: the restart on \<open>r = 0\<close>.  The claim is that a pass with \<open>r = 0\<close> is discarded, that
  signing starts again from a fresh nonce and so returns a signature with \<open>r\<close> in
  \<open>[1, n - 1]\<close>.  The code jumps back to the label, but the pass has released \<open>Q\<close> on
  line 103 and nothing initialises it again: on the small curve, with the first generator
  state giving \<open>k = 0\<close> (so \<open>r = 0\<close>) and a second one giving \<open>k = 3\<close>, which alone yields
  the signature \<open>(11, 12)\<close>, the second pass draws its nonce and stops on the released
  point; no signature is returned.  (Every signature that is returned, by a first pass,
  has \<open>r\<close> in \<open>[1, n - 1]\<close>: \<open>returned_r_in_range\<close>.)
\<close>

theorem sign_retry_uses_released_point:
  "valid_domain toy_curve \<and>
   1 \<le> (5::int) \<and> 5 \<le> curve_n toy_curve - 1 \<and>
   mpz_sizeinbase_2 7 \<le> mpz_sizeinbase_2 (curve_n toy_curve) \<and>
   draw_nonce 0 toy_curve = Inr 0 \<and>
   point_x (point_multiplication reference_ops 0 (curve_G toy_curve) toy_curve)
     mod curve_n toy_curve = 0 \<and>
   sign_attempt reference_ops 0 7 5 toy_curve = None \<and>
   signature_sign reference_ops [3] 7 5 toy_curve = Some (Inr \<lparr>sig_r = 11, sig_s = 12\<rparr>) \<and>
   signature_sign reference_ops [0, 3] 7 5 toy_curve = Some (Inl Released_point_used)"
  by code_simp

text \<open>
  C8: no restart on \<open>s = 0\<close>.  On the small curve, with \<open>d = 5\<close>, the digest 10 and the
  nonce \<open>k = 3\<close> (so \<open>r = 11\<close>), \<open>k\<^sup>-\<^sup>1 (message + private_key r)\<close> is 0 modulo \<open>n\<close>; the
  single pass returns the signature \<open>(11, 0)\<close>, and so does \<open>signature_sign\<close> with this one
  generator state.
\<close>

theorem sign_returns_zero_s:
  "valid_domain toy_curve \<and>
   1 \<le> (5::int) \<and> 5 \<le> curve_n toy_curve - 1 \<and>
   mpz_sizeinbase_2 10 \<le> mpz_sizeinbase_2 (curve_n toy_curve) \<and>
   draw_nonce 3 toy_curve = Inr 3 \<and>
   (number_theory_inverse reference_ops 3 (curve_n toy_curve) * 3) mod curve_n toy_curve = 1 \<and>
   (number_theory_inverse reference_ops 3 (curve_n toy_curve) * (10 + 5 * 11))
      mod curve_n toy_curve = 0 \<and>
   sign_attempt reference_ops 3 10 5 toy_curve = Some (Inr \<lparr>sig_r = 11, sig_s = 0\<rparr>) \<and>
   signature_sign reference_ops [3] 10 5 toy_curve = Some (Inr \<lparr>sig_r = 11, sig_s = 0\<rparr>)"
  by code_simp

text \<open>
  C10: the assertion.  The claim is that \<open>signature_sign\<close> stops on the assertion exactly
  when the message has more bits than \<open>n\<close>, and that otherwise it completes normally.  The
  second part fails on the curve \<open>y\<^sup>2 = x\<^sup>3 - x\<close> over 19 elements with the base point
  \<open>(0, 0)\<close> of prime order \<open>n = 2\<close>, the private key 1 and the message 1 (one bit, \<open>n\<close> has
  two): the assertion holds, the bound \<open>n - 2\<close> of the draw is 0 and \<open>mpz_urandomm\<close> divides
  by zero.
\<close>

theorem sign_stops_at_order_two:
  "valid_domain order_two_curve \<and>
   1 \<le> (1::int) \<and> 1 \<le> curve_n order_two_curve - 1 \<and>
   mpz_sizeinbase_2 1 \<le> mpz_sizeinbase_2 (curve_n order_two_curve) \<and>
   signature_sign reference_ops [1] 1 1 order_two_curve = Some (Inl Division_by_zero)"
  by code_simp

text \<open>
  C10, as the code has it: \<open>signature_sign\<close> stops on the assertion exactly when the
  message has more bits than \<open>n\<close>; when it has not, the group order is above 2 and the
  first nonce drawn gives \<open>r \<noteq> 0\<close>, \<open>signature_sign\<close> returns a signature.
\<close>

theorem sign_assertion:
  "(signature_sign ops raws message private_key curve = Some (Inl Assertion_failed) \<longleftrightarrow>
      mpz_sizeinbase_2 (curve_n curve) < mpz_sizeinbase_2 message) \<and>
   (mpz_sizeinbase_2 message \<le> mpz_sizeinbase_2 (curve_n curve) \<and>
    2 < curve_n curve \<and>
    draw_nonce raw curve = Inr k \<and>
    point_x (point_multiplication ops k (curve_G curve) curve) mod curve_n curve \<noteq> 0 \<longrightarrow>
      (\<exists>sig. signature_sign ops (raw # rest) message private_key curve = Some (Inr sig)))"
proof (intro conjI impI)
  show "signature_sign ops raws message private_key curve = Some (Inl Assertion_failed) \<longleftrightarrow>
      mpz_sizeinbase_2 (curve_n curve) < mpz_sizeinbase_2 message"
    by (simp add: signature_sign_def sign_loop_not_assertion not_le)
next
  assume a: "mpz_sizeinbase_2 message \<le> mpz_sizeinbase_2 (curve_n curve) \<and>
    2 < curve_n curve \<and>
    draw_nonce raw curve = Inr k \<and>
    point_x (point_multiplication ops k (curve_G curve) curve) mod curve_n curve \<noteq> 0"
  then have n: "0 < curve_n curve"
    and b: "mpz_sizeinbase_2 message \<le> mpz_sizeinbase_2 (curve_n curve)"
    and d: "draw_nonce raw curve = Inr k"
    and x: "point_x (point_multiplication ops k (curve_G curve) curve) mod curve_n curve \<noteq> 0"
    by simp_all
  from n b d x have "signature_sign ops (raw # rest) message private_key curve =
           Some (Inr \<lparr>sig_r =
                        point_x (point_multiplication ops k (curve_G curve) curve)
                          mod curve_n curve,
                      sig_s =
                        (((message + private_key *
                             (point_x (point_multiplication ops k (curve_G curve) curve)
                                mod curve_n curve)) mod curve_n curve) *
                           number_theory_inverse ops k (curve_n curve)) mod curve_n curve\<rparr>)"
    by (rule signature_sign_first_pass)
  then show "\<exists>sig. signature_sign ops (raw # rest) message private_key curve = Some (Inr sig)"
    by (rule exI)
qed

theorem sign_assertion_witness:
  "signature_sign reference_ops [3] 16 5 toy_curve = Some (Inl Assertion_failed) \<and>
   mpz_sizeinbase_2 (curve_n toy_curve) < mpz_sizeinbase_2 16 \<and>
   mpz_sizeinbase_2 7 \<le> mpz_sizeinbase_2 (curve_n toy_curve) \<and>
   2 < curve_n toy_curve \<and>
   draw_nonce 3 toy_curve = Inr 3 \<and>
   point_x (point_multiplication reference_ops 3 (curve_G toy_curve) toy_curve)
     mod curve_n toy_curve \<noteq> 0 \<and>
   (\<exists>sig. signature_sign reference_ops [3] 7 5 toy_curve = Some (Inr sig))"
proof -
  have n: "2 < curve_n toy_curve"
    by (simp add: toy_order)
  have k: "draw_nonce 3 toy_curve = Inr 3"
    by code_simp
  have r: "point_x (point_multiplication reference_ops 3 (curve_G toy_curve) toy_curve)
     mod curve_n toy_curve \<noteq> 0"
    by code_simp
  show ?thesis
    using toy_bits_7 toy_bits_16 n k r
      sign_assertion [of reference_ops "[3]" 16 5 toy_curve]
      sign_assertion [of reference_ops "[3]" 7 5 toy_curve 3 3 "[]"]
    by blast
qed

end
